theory Spec2Isabelle
  imports Main
begin

section \<open>The generated dispatcher \<^verbatim>\<open>wrap/tests/expected_namespaces/new_ClassD_.cpp\<close>\<close>

subsection \<open>Pointers, host arrays and the registry container\<close>

text \<open>
  A \<^verbatim>\<open>Shared*\<close> (pointer to a \<^verbatim>\<open>boost::shared_ptr<ClassD>\<close>) is an address; the null
  pointer is \<open>0\<close>. The dispatcher never computes with addresses, it only compares them.
\<close>

type_synonym addr = nat

text \<open>
  A host array \<^verbatim>\<open>mxArray\<close> is seen by the dispatcher through two reads only, both of
  them host or \<^verbatim>\<open>wrap/matlab.h\<close> functions that are outside the dispatcher's file:
  \<^verbatim>\<open>*(Shared**) mxGetData(a)\<close>, the pointer-sized word at the start of the array's data,
  and \<^verbatim>\<open>unwrap<int>(a)\<close>, the array's scalar value as an \<^verbatim>\<open>int\<close>. An array is modelled
  as the pair of what the two reads return.
\<close>

datatype mxArray = MxArray (mxGetData: addr) (unwrap_int: int)

text \<open>
  \<^verbatim>\<open>std::set<Shared*>\<close> is an ordered container of unique keys. It is modelled by the
  sequence of its elements in iteration order (ascending); \<open>set_insert\<close> is
  \<^verbatim>\<open>insert(key)\<close>, which adds the key only when no equal key is present, and \<open>set_erase\<close>
  is \<^verbatim>\<open>erase(key)\<close>, which returns the number of elements it removed.
\<close>

definition set_insert :: "addr \<Rightarrow> addr list \<Rightarrow> addr list" where
  "set_insert p c = (if p \<in> set c then c else insort p c)"

definition set_erase :: "addr \<Rightarrow> addr list \<Rightarrow> nat \<times> addr list" where
  "set_erase p c = (if p \<in> set c then (1, remove1 p c) else (0, c))"

definition wf_set :: "addr list \<Rightarrow> bool" where
  "wf_set c = (sorted c \<and> distinct c)"

subsection \<open>Program state\<close>

text \<open>
  \<open>collector\<close> is the file's \<^verbatim>\<open>static std::set<Shared*> collector\<close>; \<open>heap\<close> is the set of
  \<^verbatim>\<open>Shared\<close> objects that have been allocated by \<^verbatim>\<open>new\<close> and not yet freed by
  \<^verbatim>\<open>delete\<close>; \<open>atExit\<close> records that \<^verbatim>\<open>mexAtExit(cleanup)\<close> has registered the hook.
\<close>

record state =
  collector :: "addr list"
  heap :: "addr set"
  atExit :: bool

definition init_state :: state where
  "init_state = \<lparr>collector = [], heap = {}, atExit = False\<rparr>"

datatype error =
    ReadPastInputs      \<comment> \<open>\<^verbatim>\<open>in[i]\<close> read with \<^verbatim>\<open>i >= nargin\<close>\<close>
  | DeleteNotAllocated  \<comment> \<open>\<^verbatim>\<open>delete p\<close> on a pointer that is not a live allocation\<close>
  | InvalidIterator     \<comment> \<open>\<^verbatim>\<open>++it\<close> on an iterator whose element has been erased\<close>

subsection \<open>\<^verbatim>\<open>Destruct\<close> and \<^verbatim>\<open>cleanup\<close>\<close>

text \<open>
  \<^verbatim>\<open>void operator() (Shared* p) { collector.erase(p); }\<close>
\<close>

definition Destruct :: "addr \<Rightarrow> state \<Rightarrow> state" where
  "Destruct p s = s\<lparr>collector := snd (set_erase p (collector s))\<rparr>"

text \<open>
  An iterator into the registry stands on an element (\<open>Some p\<close>) or is \<^verbatim>\<open>end()\<close>
  (\<open>None\<close>). \<open>set_begin\<close> is \<^verbatim>\<open>begin()\<close>; \<open>set_next p\<close> is \<^verbatim>\<open>++it\<close> for an iterator
  standing on \<open>p\<close>: it moves to the least element above \<open>p\<close>, or to \<^verbatim>\<open>end()\<close>. Erasing an
  element invalidates the iterators that stand on it and no others; \<^verbatim>\<open>end()\<close> stays
  valid.
\<close>

definition set_begin :: "addr list \<Rightarrow> addr option" where
  "set_begin c = (case c of [] \<Rightarrow> None | p # _ \<Rightarrow> Some p)"

definition set_next :: "addr \<Rightarrow> addr list \<Rightarrow> addr option" where
  "set_next p c = set_begin (filter (\<lambda>q. p < q) c)"

text \<open>
  \<^verbatim>\<open>std::for_each(first, last, Destruct())\<close> with \<^verbatim>\<open>last = collector.end()\<close> is the loop
  \<^verbatim>\<open>for (; first != last; ++first) f(*first);\<close> over the live container. Each round calls
  \<^verbatim>\<open>Destruct\<close> on the element under \<open>first\<close> and then increments \<open>first\<close>. The increment is
  defined only while that element is still in the container; otherwise the behaviour is
  undefined, and the loop ends with \<open>InvalidIterator\<close> and the state in which the
  increment is reached.
\<close>

function for_each_Destruct :: "addr option \<Rightarrow> state \<Rightarrow> (error \<times> state) + state" where
  "for_each_Destruct None s = Inr s"
| "for_each_Destruct (Some p) s =
    (if p \<in> set (collector (Destruct p s))
     then for_each_Destruct (set_next p (collector (Destruct p s))) (Destruct p s)
     else Inl (InvalidIterator, Destruct p s))"
  by pat_completeness auto
termination
proof (relation "measure (\<lambda>(first, s). length (collector s))")
  show "wf (measure (\<lambda>(first, s). length (collector s)))" by simp
next
  fix p s
  assume "p \<in> set (collector (Destruct p s))"
  then have mem: "p \<in> set (collector s)"
    by (auto simp: Destruct_def set_erase_def dest: notin_set_remove1 split: if_splits)
  then have "0 < length (collector s)"
    by (rule length_pos_if_in_set)
  with mem have "length (collector (Destruct p s)) < length (collector s)"
    by (simp add: Destruct_def set_erase_def length_remove1)
  then show "((set_next p (collector (Destruct p s)), Destruct p s), (Some p, s))
      \<in> measure (\<lambda>(first, s). length (collector s))"
    by simp
qed

definition cleanup :: "state \<Rightarrow> (error \<times> state) + state" where
  "cleanup s = for_each_Destruct (set_begin (collector s)) s"

subsection \<open>\<^verbatim>\<open>mexFunction\<close>\<close>

text \<open>\<^verbatim>\<open>delete self\<close>: frees a live allocation; anything else is undefined in C++.\<close>

definition delete :: "addr \<Rightarrow> state \<Rightarrow> error + state" where
  "delete p s = (if p \<in> heap s then Inr (s\<lparr>heap := heap s - {p}\<rparr>) else Inl DeleteNotAllocated)"

text \<open>
  \<^verbatim>\<open>new Shared(new ClassD())\<close>: the allocator's answer \<open>a\<close> is a parameter of the model;
  the allocation becomes live.
\<close>

definition new_Shared :: "addr \<Rightarrow> state \<Rightarrow> addr \<times> state" where
  "new_Shared a s = (a, s\<lparr>heap := insert a (heap s)\<rparr>)"

text \<open>
  The entry point. \<open>ins\<close> is the array \<^verbatim>\<open>in[]\<close> and \<^verbatim>\<open>nargin\<close> its length; the result is
  the new state and the value written to \<^verbatim>\<open>out[0]\<close>, if any. \<open>a\<close> is the address the
  allocator hands out should the call reach \<^verbatim>\<open>new\<close>.
\<close>

definition mexFunction :: "addr \<Rightarrow> state \<Rightarrow> mxArray list \<Rightarrow> error + (state \<times> addr option)" where
  "mexFunction a s0 ins =
    (let s = s0\<lparr>atExit := True\<rparr>; nargin = length ins in
     case ins of
       [] \<Rightarrow> Inl ReadPastInputs
     | input # rest \<Rightarrow>
        (let self = mxGetData input in
         if self \<noteq> 0 then
           (if nargin > 1 then
              Inr (s\<lparr>collector := set_insert self (collector s)\<rparr>, None)
            else
              (case set_erase self (collector s) of (n, c') \<Rightarrow>
                 if n \<noteq> 0 then
                   (case delete self (s\<lparr>collector := c'\<rparr>) of
                      Inl e \<Rightarrow> Inl e
                    | Inr s' \<Rightarrow> Inr (s', None))
                 else Inr (s\<lparr>collector := c'\<rparr>, None)))
         else
           (case rest of
              [] \<Rightarrow> Inl ReadPastInputs
            | in1 # _ \<Rightarrow>
               (let nc = unwrap_int in1;
                    (self', s1) = (if nc = 0 then new_Shared a s else (self, s))
                in Inr (s1\<lparr>collector := set_insert self' (collector s1)\<rparr>, Some self')))))"

text \<open>
  Unloading the module runs the hook registered with \<^verbatim>\<open>mexAtExit\<close>, if one has been
  registered.
\<close>

definition unload :: "state \<Rightarrow> (error \<times> state) + state" where
  "unload s = (if atExit s then cleanup s else Inr s)"

subsection \<open>Sequences of invocations\<close>

text \<open>
  The host serialises its calls: a run of the module is a sequence of dispatcher
  invocations and unloads. \<^verbatim>\<open>collector\<close> has internal linkage (\<^verbatim>\<open>static\<close>), so these are
  the only operations that reach it. A call or an unload that ends in undefined behaviour
  ends the run.
\<close>

datatype event = Call addr "mxArray list" | Unload

fun step :: "state \<Rightarrow> event \<Rightarrow> error + state" where
  "step s (Call a ins) = (case mexFunction a s ins of Inl e \<Rightarrow> Inl e | Inr (s', out) \<Rightarrow> Inr s')"
| "step s Unload = (case unload s of Inl (e, s') \<Rightarrow> Inl e | Inr s' \<Rightarrow> Inr s')"

fun run :: "state \<Rightarrow> event list \<Rightarrow> error + state" where
  "run s [] = Inr s"
| "run s (e # es) = (case step s e of Inl err \<Rightarrow> Inl err | Inr s' \<Rightarrow> run s' es)"

text \<open>
  A release request naming \<open>h\<close>: the dispatcher is invoked with exactly one input, whose
  pointer word is the non-null \<open>h\<close>.
\<close>

fun release_of :: "addr \<Rightarrow> event \<Rightarrow> bool" where
  "release_of h (Call a [input]) = (mxGetData input = h \<and> h \<noteq> 0)"
| "release_of h (Call a ins) = False"
| "release_of h Unload = False"

section \<open>The interface file \<^verbatim>\<open>gtsam.h\<close>\<close>

text \<open>
  Each class of the interface file is recorded with its qualified name, the number of its
  constructors, and its method declarations in the order of the file, each with its
  \<^verbatim>\<open>static\<close> marker and its name. Return types and argument lists play no part in the
  property studied here and are left out. Declarations inside comments are not
  declarations.
\<close>

datatype method_decl = Static string | Member string

fun method_name :: "method_decl \<Rightarrow> string" where
  "method_name (Static n) = n"
| "method_name (Member n) = n"

record class_decl =
  class_name :: string
  constructors :: nat
  methods :: "method_decl list"

definition Point2 :: class_decl where
  "Point2 =
    \<lparr>class_name = ''Point2'', constructors = 2, methods = [
        Static ''Expmap'', Static ''Logmap'', Member ''print'', Member ''x'',
        Member ''y'', Member ''localCoordinates'', Member ''compose'', Member ''between'',
        Member ''retract'']\<rparr>"

definition Point3 :: class_decl where
  "Point3 =
    \<lparr>class_name = ''Point3'', constructors = 3, methods = [
        Static ''Expmap'', Static ''Logmap'', Member ''print'', Member ''equals'',
        Member ''vector'', Member ''x'', Member ''y'', Member ''z'',
        Member ''localCoordinates'', Member ''retract'', Member ''compose'',
        Member ''between'']\<rparr>"

definition Rot2 :: class_decl where
  "Rot2 =
    \<lparr>class_name = ''Rot2'', constructors = 2, methods = [
        Static ''Expmap'', Static ''Logmap'', Static ''fromAngle'',
        Static ''fromDegrees'', Static ''fromCosSin'', Static ''relativeBearing'',
        Static ''atan2'', Member ''print'', Member ''equals'', Member ''theta'',
        Member ''degrees'', Member ''c'', Member ''s'', Member ''localCoordinates'',
        Member ''retract'', Member ''compose'', Member ''between'']\<rparr>"

definition Rot3 :: class_decl where
  "Rot3 =
    \<lparr>class_name = ''Rot3'', constructors = 2, methods = [
        Static ''Expmap'', Static ''Logmap'', Static ''ypr'', Static ''Rx'',
        Static ''Ry'', Static ''Rz'', Static ''RzRyRx'', Static ''RzRyRx'',
        Static ''yaw'', Static ''pitch'', Static ''roll'', Static ''quaternion'',
        Static ''rodriguez'', Member ''matrix'', Member ''transpose'', Member ''xyz'',
        Member ''ypr'', Member ''roll'', Member ''pitch'', Member ''yaw'',
        Member ''print'', Member ''equals'', Member ''localCoordinates'',
        Member ''retract'', Member ''compose'', Member ''between'']\<rparr>"

definition Pose2 :: class_decl where
  "Pose2 =
    \<lparr>class_name = ''Pose2'', constructors = 5, methods = [
        Static ''Expmap'', Static ''Logmap'', Member ''print'', Member ''equals'',
        Member ''x'', Member ''y'', Member ''theta'', Member ''dim'',
        Member ''localCoordinates'', Member ''retract'', Member ''compose'',
        Member ''between'', Member ''bearing'', Member ''range'']\<rparr>"

definition Pose3 :: class_decl where
  "Pose3 =
    \<lparr>class_name = ''Pose3'', constructors = 4, methods = [
        Static ''Expmap'', Static ''Logmap'', Member ''print'', Member ''equals'',
        Member ''x'', Member ''y'', Member ''z'', Member ''matrix'',
        Member ''adjointMap'', Member ''compose'', Member ''between'', Member ''retract'',
        Member ''translation'', Member ''rotation'']\<rparr>"

definition SharedGaussian :: class_decl where
  "SharedGaussian =
    \<lparr>class_name = ''SharedGaussian'', constructors = 1, methods = [
        Member ''print'']\<rparr>"

definition SharedDiagonal :: class_decl where
  "SharedDiagonal =
    \<lparr>class_name = ''SharedDiagonal'', constructors = 1, methods = [
        Member ''print'', Member ''sample'']\<rparr>"

definition SharedNoiseModel :: class_decl where
  "SharedNoiseModel =
    \<lparr>class_name = ''SharedNoiseModel'', constructors = 2, methods = []\<rparr>"

definition VectorValues :: class_decl where
  "VectorValues =
    \<lparr>class_name = ''VectorValues'', constructors = 2, methods = [
        Member ''print'', Member ''equals'', Member ''size'', Member ''insert'']\<rparr>"

definition GaussianConditional :: class_decl where
  "GaussianConditional =
    \<lparr>class_name = ''GaussianConditional'', constructors = 3, methods = [
        Member ''print'', Member ''equals'']\<rparr>"

definition GaussianBayesNet :: class_decl where
  "GaussianBayesNet =
    \<lparr>class_name = ''GaussianBayesNet'', constructors = 1, methods = [
        Member ''print'', Member ''equals'', Member ''push_back'', Member ''push_front'']\<rparr>"

definition GaussianFactor :: class_decl where
  "GaussianFactor =
    \<lparr>class_name = ''GaussianFactor'', constructors = 0, methods = [
        Member ''print'', Member ''equals'', Member ''error'']\<rparr>"

definition JacobianFactor :: class_decl where
  "JacobianFactor =
    \<lparr>class_name = ''JacobianFactor'', constructors = 5, methods = [
        Member ''print'', Member ''equals'', Member ''empty'', Member ''getb'',
        Member ''error'', Member ''eliminateFirst'']\<rparr>"

definition GaussianFactorGraph :: class_decl where
  "GaussianFactorGraph =
    \<lparr>class_name = ''GaussianFactorGraph'', constructors = 1, methods = [
        Member ''print'', Member ''equals'', Member ''size'', Member ''push_back'',
        Member ''error'', Member ''probPrime'', Member ''combine'',
        Member ''denseJacobian'', Member ''denseHessian'', Member ''sparseJacobian_'']\<rparr>"

definition GaussianSequentialSolver :: class_decl where
  "GaussianSequentialSolver =
    \<lparr>class_name = ''GaussianSequentialSolver'', constructors = 1, methods = [
        Member ''eliminate'', Member ''optimize'', Member ''marginalFactor'',
        Member ''marginalCovariance'']\<rparr>"

definition KalmanFilter :: class_decl where
  "KalmanFilter =
    \<lparr>class_name = ''KalmanFilter'', constructors = 1, methods = [
        Member ''print'', Member ''mean'', Member ''information'', Member ''covariance'',
        Member ''predict'', Member ''predict2'', Member ''update'']\<rparr>"

definition Ordering :: class_decl where
  "Ordering =
    \<lparr>class_name = ''Ordering'', constructors = 1, methods = [
        Member ''print'', Member ''equals'', Member ''push_back'']\<rparr>"

definition planarSLAM_Values :: class_decl where
  "planarSLAM_Values =
    \<lparr>class_name = ''planarSLAM::Values'', constructors = 1, methods = [
        Member ''print'', Member ''pose'', Member ''point'', Member ''insertPose'',
        Member ''insertPoint'']\<rparr>"

definition planarSLAM_Graph :: class_decl where
  "planarSLAM_Graph =
    \<lparr>class_name = ''planarSLAM::Graph'', constructors = 1, methods = [
        Member ''print'', Member ''error'', Member ''orderingCOLAMD'',
        Member ''linearize'', Member ''addPrior'', Member ''addPoseConstraint'',
        Member ''addOdometry'', Member ''addBearing'', Member ''addRange'',
        Member ''addBearingRange'', Member ''optimize'']\<rparr>"

definition planarSLAM_Odometry :: class_decl where
  "planarSLAM_Odometry =
    \<lparr>class_name = ''planarSLAM::Odometry'', constructors = 1, methods = [
        Member ''print'', Member ''linearize'']\<rparr>"

definition simulated2D_Values :: class_decl where
  "simulated2D_Values =
    \<lparr>class_name = ''simulated2D::Values'', constructors = 1, methods = [
        Member ''insertPose'', Member ''insertPoint'', Member ''nrPoses'',
        Member ''nrPoints'', Member ''pose'', Member ''point'']\<rparr>"

definition simulated2D_Graph :: class_decl where
  "simulated2D_Graph =
    \<lparr>class_name = ''simulated2D::Graph'', constructors = 1, methods = []\<rparr>"

definition simulated2DOriented_Values :: class_decl where
  "simulated2DOriented_Values =
    \<lparr>class_name = ''simulated2DOriented::Values'', constructors = 1, methods = [
        Member ''insertPose'', Member ''insertPoint'', Member ''nrPoses'',
        Member ''nrPoints'', Member ''pose'', Member ''point'']\<rparr>"

definition simulated2DOriented_Graph :: class_decl where
  "simulated2DOriented_Graph =
    \<lparr>class_name = ''simulated2DOriented::Graph'', constructors = 1, methods = []\<rparr>"

definition gtsam_h :: "class_decl list" where
  "gtsam_h = [
     Point2, Point3, Rot2, Rot3, Pose2, Pose3, SharedGaussian, SharedDiagonal,
     SharedNoiseModel, VectorValues, GaussianConditional, GaussianBayesNet,
     GaussianFactor, JacobianFactor, GaussianFactorGraph, GaussianSequentialSolver,
     KalmanFilter, Ordering, planarSLAM_Values, planarSLAM_Graph, planarSLAM_Odometry,
     simulated2D_Values, simulated2D_Graph, simulated2DOriented_Values,
     simulated2DOriented_Graph]"

text \<open>
  Modelled from the spec: the semantic validator (the wrap tool's own sources are not
  part of the files at hand). Of its checks only the one on method names is modelled: a
  class with two same-named methods fails with \<open>DuplicateMethod\<close>, reporting the offending
  declaration; a file is validated class by class, in order.
\<close>

datatype semantic_error = DuplicateMethod string string

fun first_duplicate :: "string list \<Rightarrow> string option" where
  "first_duplicate [] = None"
| "first_duplicate (n # ns) = (if n \<in> set ns then Some n else first_duplicate ns)"

definition validate_class :: "class_decl \<Rightarrow> semantic_error + class_decl" where
  "validate_class c =
    (case first_duplicate (map method_name (methods c)) of
       None \<Rightarrow> Inr c
     | Some n \<Rightarrow> Inl (DuplicateMethod (class_name c) n))"

fun validate :: "class_decl list \<Rightarrow> semantic_error + class_decl list" where
  "validate [] = Inr []"
| "validate (c # cs) =
    (case validate_class c of
       Inl e \<Rightarrow> Inl e
     | Inr c' \<Rightarrow> (case validate cs of Inl e \<Rightarrow> Inl e | Inr cs' \<Rightarrow> Inr (c' # cs')))"

section \<open>\<^verbatim>\<open>gtsam/base/DerivedValue.h\<close>\<close>

text \<open>
  \<^verbatim>\<open>DerivedValue<DERIVED>\<close> implements the generic \<^verbatim>\<open>Value\<close> interface by forwarding to the
  operations of \<^verbatim>\<open>DERIVED\<close>. The template parameter is a record of those operations:
  \<^verbatim>\<open>equals\<close>, \<^verbatim>\<open>retract\<close>, \<^verbatim>\<open>localCoordinates\<close> and the copy constructor. Tolerances and
  vectors are only passed through, so their types are left open.

  A \<^verbatim>\<open>const Value&\<close> refers to an object whose dynamic type is \<^verbatim>\<open>DERIVED\<close> or something
  else; \<^verbatim>\<open>dynamic_cast<const DERIVED&>\<close> throws \<^verbatim>\<open>std::bad_cast\<close> in the second case.
  The members \<^verbatim>\<open>equals_\<close>, \<^verbatim>\<open>retract_\<close> and \<^verbatim>\<open>localCoordinates_\<close> are named
  \<open>equals_Value\<close>, \<open>retract_Value\<close> and \<open>localCoordinates_Value\<close> here, a name ending in an
  underscore not being available.
\<close>

datatype ('d, 'o) Value = Derived 'd | Other 'o

datatype value_error =
    bad_cast       \<comment> \<open>thrown by the reference \<^verbatim>\<open>dynamic_cast\<close>\<close>
  | NullPlace      \<comment> \<open>placement \<^verbatim>\<open>new\<close> at the null pointer a failed pool \<^verbatim>\<open>malloc\<close> returns\<close>

record ('d, 'vec, 'tol) DERIVED =
  equals :: "'d \<Rightarrow> 'd \<Rightarrow> 'tol \<Rightarrow> bool"
  retract :: "'d \<Rightarrow> 'vec \<Rightarrow> 'd"
  localCoordinates :: "'d \<Rightarrow> 'd \<Rightarrow> 'vec"
  copy :: "'d \<Rightarrow> 'd"

definition dynamic_cast :: "('d, 'o) Value \<Rightarrow> value_error + 'd" where
  "dynamic_cast p = (case p of Derived d \<Rightarrow> Inr d | Other x \<Rightarrow> Inl bad_cast)"

definition equals_Value ::
  "('d, 'vec, 'tol) DERIVED \<Rightarrow> 'd \<Rightarrow> ('d, 'o) Value \<Rightarrow> 'tol \<Rightarrow> value_error + bool" where
  "equals_Value D this p tol =
    (case dynamic_cast p of
       Inl e \<Rightarrow> Inl e
     | Inr derivedValue2 \<Rightarrow> Inr (equals D this derivedValue2 tol))"

text \<open>
  \<^verbatim>\<open>retract_\<close> takes a place from the singleton pool (the pool's answer \<open>place\<close> is a
  parameter; the pool's objects are a map from addresses to \<^verbatim>\<open>DERIVED\<close> values),
  copy-constructs the result of \<^verbatim>\<open>retract\<close> there and returns the place as a \<^verbatim>\<open>Value*\<close>.
\<close>

definition retract_Value ::
  "('d, 'vec, 'tol) DERIVED \<Rightarrow> addr \<Rightarrow> (addr \<rightharpoonup> 'd) \<Rightarrow> 'd \<Rightarrow> 'vec
     \<Rightarrow> value_error + (addr \<times> (addr \<rightharpoonup> 'd))" where
  "retract_Value D place pool this delta =
    (let retractResult = retract D this delta in
     if place = 0 then Inl NullPlace
     else Inr (place, pool(place \<mapsto> copy D retractResult)))"

definition localCoordinates_Value ::
  "('d, 'vec, 'tol) DERIVED \<Rightarrow> 'd \<Rightarrow> ('d, 'o) Value \<Rightarrow> value_error + 'vec" where
  "localCoordinates_Value D this value2 =
    (case dynamic_cast value2 of
       Inl e \<Rightarrow> Inl e
     | Inr derivedValue2 \<Rightarrow> Inr (localCoordinates D this derivedValue2))"

section \<open>Properties of the registry container\<close>

lemma set_set_insert: "set (set_insert p c) = insert p (set c)"
  by (auto simp: set_insert_def set_insort_key)

lemma wf_set_insert: "wf_set c \<Longrightarrow> wf_set (set_insert p c)"
  by (simp add: set_insert_def wf_set_def sorted_insort distinct_insort)

lemma Destruct_drops_distinct:
  "distinct (collector s) \<Longrightarrow> p \<notin> set (collector (Destruct p s))"
  by (simp add: Destruct_def set_erase_def)

section \<open>The teardown sweep, field by field\<close>

lemma heap_Destruct: "heap (Destruct p s) = heap s"
  by (simp add: Destruct_def)

lemma heap_for_each_Destruct:
  "(case for_each_Destruct first s of Inl (e, s') \<Rightarrow> heap s' | Inr s' \<Rightarrow> heap s') = heap s"
  by (induction first s rule: for_each_Destruct.induct) (simp_all add: heap_Destruct)

lemma for_each_Destruct_invalid:
  "distinct (collector s) \<Longrightarrow>
   for_each_Destruct (Some p) s = Inl (InvalidIterator, Destruct p s)"
  by (simp add: Destruct_drops_distinct)

lemma cleanup_returns:
  assumes "cleanup s = Inr s'" and "wf_set (collector s)"
  shows "s' = s"
proof (cases "collector s")
  case Nil
  with assms(1) show ?thesis by (simp add: cleanup_def set_begin_def)
next
  case (Cons p c)
  from assms(2) have "distinct (collector s)" by (simp add: wf_set_def)
  then have "for_each_Destruct (Some p) s = Inl (InvalidIterator, Destruct p s)"
    by (rule for_each_Destruct_invalid)
  with Cons assms(1) show ?thesis by (simp add: cleanup_def set_begin_def)
qed

section \<open>The dispatcher, branch by branch\<close>

text \<open>
  One equation for each way through \<^verbatim>\<open>mexFunction\<close>: a release request, a
  persistent-registration request, a construction request, and the two calls that read
  past the end of \<^verbatim>\<open>in[]\<close>.
\<close>

lemma mexFunction_release:
  "mxGetData x \<noteq> 0 \<Longrightarrow>
   mexFunction a s [x] =
     (if mxGetData x \<in> set (collector s) then
        (if mxGetData x \<in> heap s then
           Inr (s\<lparr>atExit := True, collector := remove1 (mxGetData x) (collector s),
                   heap := heap s - {mxGetData x}\<rparr>, None)
         else Inl DeleteNotAllocated)
      else Inr (s\<lparr>atExit := True\<rparr>, None))"
  by (simp add: mexFunction_def Let_def set_erase_def delete_def)

lemma mexFunction_persist:
  "mxGetData x \<noteq> 0 \<Longrightarrow>
   mexFunction a s (x # y # rest) =
     Inr (s\<lparr>atExit := True, collector := set_insert (mxGetData x) (collector s)\<rparr>, None)"
  by (simp add: mexFunction_def Let_def)

lemma mexFunction_construct:
  "mxGetData x = 0 \<Longrightarrow>
   mexFunction a s (x # y # rest) =
     (if unwrap_int y = 0 then
        Inr (s\<lparr>atExit := True, heap := insert a (heap s),
                collector := set_insert a (collector s)\<rparr>, Some a)
      else Inr (s\<lparr>atExit := True, collector := set_insert 0 (collector s)\<rparr>, Some 0))"
  by (simp add: mexFunction_def Let_def new_Shared_def)

lemma mexFunction_no_input: "mexFunction a s [] = Inl ReadPastInputs"
  by (simp add: mexFunction_def Let_def)

lemma mexFunction_null_alone: "mxGetData x = 0 \<Longrightarrow> mexFunction a s [x] = Inl ReadPastInputs"
  by (simp add: mexFunction_def Let_def)

section \<open>Release requests\<close>

text \<open>
  Claim C1. A release request is a call with the single input \<open>MxArray h k\<close>, \<open>h\<close> not
  null. On a registry without duplicates (what a \<^verbatim>\<open>std::set\<close> is) in which \<open>h\<close>, if
  registered, designates a live allocation, the call returns normally and writes no
  output; afterwards \<open>h\<close> is not registered and every other entry is kept; the allocation
  of \<open>h\<close> is freed exactly when \<open>h\<close> was registered, and otherwise registry and heap are
  as before; a second release of \<open>h\<close> changes nothing at all, so nothing is destroyed
  twice.
\<close>

theorem release_iff_member:
  assumes "wf_set (collector s)" and "h \<noteq> 0" and "h \<in> set (collector s) \<longrightarrow> h \<in> heap s"
  shows "\<exists>s'. mexFunction a s [MxArray h k] = Inr (s', None)
           \<and> set (collector s') = set (collector s) - {h}
           \<and> heap s' = (if h \<in> set (collector s) then heap s - {h} else heap s)
           \<and> (h \<notin> set (collector s) \<longrightarrow> collector s' = collector s)
           \<and> mexFunction a' s' [MxArray h k'] = Inr (s', None)"
proof (cases "h \<in> set (collector s)")
  case True
  let ?s' = "s\<lparr>atExit := True, collector := remove1 h (collector s), heap := heap s - {h}\<rparr>"
  from True assms have live: "h \<in> heap s" by simp
  from assms(1) have d: "distinct (collector s)" by (simp add: wf_set_def)
  have first: "mexFunction a s [MxArray h k] = Inr (?s', None)"
    using assms(2) True live by (simp add: mexFunction_release)
  from d have gone: "h \<notin> set (collector ?s')" by simp
  have second: "mexFunction a' ?s' [MxArray h k'] = Inr (?s', None)"
    using assms(2) gone by (simp add: mexFunction_release)
  from d have rest: "set (collector ?s') = set (collector s) - {h}" by simp
  have hp: "heap ?s' = (if h \<in> set (collector s) then heap s - {h} else heap s)"
    using True by simp
  show ?thesis
    by (rule exI [of _ ?s']) (use first second rest hp True in blast)
next
  case False
  let ?s' = "s\<lparr>atExit := True\<rparr>"
  have first: "mexFunction a s [MxArray h k] = Inr (?s', None)"
    using assms(2) False by (simp add: mexFunction_release)
  have second: "mexFunction a' ?s' [MxArray h k'] = Inr (?s', None)"
    using assms(2) False by (simp add: mexFunction_release)
  have rest: "set (collector ?s') = set (collector s) - {h}" using False by simp
  have hp: "heap ?s' = (if h \<in> set (collector s) then heap s - {h} else heap s)"
    using False by simp
  have same: "collector ?s' = collector s" by simp
  show ?thesis
    by (rule exI [of _ ?s']) (use first second rest hp same in blast)
qed

theorem release_iff_member_witness:
  "wf_set (collector \<lparr>collector = [3, 5], heap = {3, 5}, atExit = True\<rparr>) \<and> (5::nat) \<noteq> 0
   \<and> 5 \<in> set (collector \<lparr>collector = [3, 5], heap = {3, 5}, atExit = True\<rparr>)
   \<and> 5 \<in> heap \<lparr>collector = [3, 5], heap = {3, 5}, atExit = True\<rparr>
   \<and> (\<exists>s'. mexFunction 9 \<lparr>collector = [3, 5], heap = {3, 5}, atExit = True\<rparr> [MxArray 5 0]
              = Inr (s', None)
          \<and> set (collector s') = {3} \<and> heap s' = {3}
          \<and> mexFunction 9 s' [MxArray 5 0] = Inr (s', None))"
proof -
  let ?s = "\<lparr>collector = [3, 5], heap = {3, 5}, atExit = True\<rparr>"
  have h1: "wf_set (collector ?s)" by (simp add: wf_set_def)
  have h2: "(5::nat) \<noteq> 0" by simp
  have h3: "5 \<in> set (collector ?s) \<longrightarrow> 5 \<in> heap ?s" by simp
  have e1: "set (collector ?s) - {5} = {3::nat}" by auto
  have e2: "(if 5 \<in> set (collector ?s) then heap ?s - {5} else heap ?s) = {3::nat}" by auto
  from release_iff_member [OF h1 h2 h3, of 9 0 9 0]
  have "\<exists>s'. mexFunction 9 ?s [MxArray 5 0] = Inr (s', None)
          \<and> set (collector s') = {3} \<and> heap s' = {3}
          \<and> mexFunction 9 s' [MxArray 5 0] = Inr (s', None)"
    unfolding e1 e2 by (elim exE conjE) (intro exI conjI, assumption+)
  moreover have "5 \<in> set (collector ?s)" and "5 \<in> heap ?s" by simp_all
  ultimately show ?thesis using h1 h2 by (intro conjI)
qed

section \<open>The teardown sweep\<close>

text \<open>
  Claim C2. The sweep is claimed to release every registered handle as an explicit
  release does, freeing its allocation. \<^verbatim>\<open>Destruct\<close> only erases the pointer from the
  registry and never calls \<^verbatim>\<open>delete\<close>: on the registry \<open>{4}\<close> with \<open>4\<close> allocated, the
  sweep erases \<open>4\<close> and stops with the allocation still live, where the release request
  for \<open>4\<close> frees it; and on no state does \<^verbatim>\<open>Destruct\<close>, or the sweep as far as it is
  defined, free anything.
\<close>

theorem sweep_frees_nothing:
  "cleanup \<lparr>collector = [4], heap = {4}, atExit = True\<rparr>
     = Inl (InvalidIterator, \<lparr>collector = [], heap = {4}, atExit = True\<rparr>)
   \<and> mexFunction 9 \<lparr>collector = [4], heap = {4}, atExit = True\<rparr> [MxArray 4 0]
     = Inr (\<lparr>collector = [], heap = {}, atExit = True\<rparr>, None)
   \<and> (\<forall>p s. heap (Destruct p s) = heap s)
   \<and> (\<forall>s. (case cleanup s of Inl (e, s') \<Rightarrow> heap s' | Inr s' \<Rightarrow> heap s') = heap s)"
proof -
  have "cleanup \<lparr>collector = [4], heap = {4}, atExit = True\<rparr>
     = Inl (InvalidIterator, \<lparr>collector = [], heap = {4}, atExit = True\<rparr>)"
    by (simp add: cleanup_def set_begin_def Destruct_def set_erase_def)
  moreover have "mexFunction 9 \<lparr>collector = [4], heap = {4}, atExit = True\<rparr> [MxArray 4 0]
     = Inr (\<lparr>collector = [], heap = {}, atExit = True\<rparr>, None)"
    by (simp add: mexFunction_release)
  moreover have "\<forall>p s. heap (Destruct p s) = heap s"
    by (simp add: heap_Destruct)
  moreover have "\<forall>s. (case cleanup s of Inl (e, s') \<Rightarrow> heap s' | Inr s' \<Rightarrow> heap s') = heap s"
    by (simp add: cleanup_def heap_for_each_Destruct)
  ultimately show ?thesis by blast
qed

text \<open>
  Claim C3. After the sweep the registry is claimed to be empty. \<^verbatim>\<open>Destruct\<close> erases the
  very element the loop's iterator stands on, so the increment that follows is undefined
  whenever the registry is not empty. On the registry \<open>{2, 4, 7}\<close> the sweep erases \<open>2\<close>
  and reaches the undefined increment with \<open>4\<close> and \<open>7\<close> still registered; a registry of
  a single handle already ends so; the sweep is defined on the empty registry alone.
\<close>

theorem sweep_invalidates_its_iterator:
  "cleanup \<lparr>collector = [2, 4, 7], heap = {2, 4}, atExit = True\<rparr>
     = Inl (InvalidIterator, \<lparr>collector = [4, 7], heap = {2, 4}, atExit = True\<rparr>)
   \<and> cleanup \<lparr>collector = [p], heap = H, atExit = b\<rparr>
     = Inl (InvalidIterator, \<lparr>collector = [], heap = H, atExit = b\<rparr>)
   \<and> cleanup \<lparr>collector = [], heap = H, atExit = b\<rparr>
     = Inr \<lparr>collector = [], heap = H, atExit = b\<rparr>"
  by (simp add: cleanup_def set_begin_def Destruct_def set_erase_def)

section \<open>Construction requests\<close>

text \<open>
  Claim C4, as stated: a construction request whose selector matches no constructor raises
  a dispatch error, registers nothing and writes no result. It fails: with selector \<open>1\<close>
  on the initial state the call returns normally, with the null pointer registered and
  written to \<^verbatim>\<open>out[0]\<close>.
\<close>

theorem unknown_selector_counterexample:
  "mexFunction 9 \<lparr>collector = [], heap = {}, atExit = False\<rparr> [MxArray 0 0, MxArray 0 1]
     = Inr (\<lparr>collector = [0], heap = {}, atExit = True\<rparr>, Some 0)"
  by (simp add: mexFunction_construct set_insert_def)

text \<open>
  Claim C4, amended. For a call whose first input holds the null pointer and whose second
  input unwraps to a selector other than \<open>0\<close>, the dispatcher raises no error and
  allocates nothing: it returns normally, the null pointer (the unchanged \<^verbatim>\<open>self\<close>) is
  inserted into the registry and written to \<^verbatim>\<open>out[0]\<close>, every entry registered before
  stays, and the heap is as before.
\<close>

theorem unknown_selector_registers_null:
  assumes "mxGetData in0 = 0" and "unwrap_int in1 \<noteq> 0"
  shows "\<exists>s'. mexFunction a s (in0 # in1 # rest) = Inr (s', Some 0)
           \<and> set (collector s') = insert 0 (set (collector s))
           \<and> heap s' = heap s"
  using assms by (simp add: mexFunction_construct set_set_insert)

theorem unknown_selector_registers_null_witness:
  "mxGetData (MxArray 0 0) = 0 \<and> unwrap_int (MxArray 0 3) \<noteq> 0
   \<and> (\<exists>s'. mexFunction 9 \<lparr>collector = [4], heap = {4}, atExit = True\<rparr>
               (MxArray 0 0 # MxArray 0 3 # []) = Inr (s', Some 0)
           \<and> set (collector s') = insert 0 (set (collector \<lparr>collector = [4], heap = {4}, atExit = True\<rparr>))
           \<and> heap s' = heap \<lparr>collector = [4], heap = {4}, atExit = True\<rparr>)"
proof -
  have h1: "mxGetData (MxArray 0 0) = 0" by simp
  have h2: "unwrap_int (MxArray 0 3) \<noteq> 0" by simp
  from unknown_selector_registers_null [OF h1 h2, of 9 "\<lparr>collector = [4], heap = {4}, atExit = True\<rparr>" "[]"] h1 h2
  show ?thesis by (intro conjI)
qed

text \<open>
  Claim C5. For a call whose first input holds the null pointer and whose second input
  unwraps to selector \<open>0\<close> (the nullary constructor of \<^verbatim>\<open>ClassD\<close>), the dispatcher
  allocates a new \<^verbatim>\<open>Shared\<close> at the address \<open>a\<close> the allocator returns, inserts \<open>a\<close> into
  the registry and writes \<open>a\<close> to \<^verbatim>\<open>out[0]\<close>.
\<close>

theorem construct_registers_new_instance:
  assumes "mxGetData in0 = 0" and "unwrap_int in1 = 0"
  shows "\<exists>s'. mexFunction a s (in0 # in1 # rest) = Inr (s', Some a)
           \<and> heap s' = insert a (heap s)
           \<and> set (collector s') = insert a (set (collector s))"
  using assms by (simp add: mexFunction_construct set_set_insert)

theorem construct_registers_new_instance_witness:
  "mxGetData (MxArray 0 0) = 0 \<and> unwrap_int (MxArray 0 0) = 0
   \<and> (\<exists>s'. mexFunction 9 \<lparr>collector = [4], heap = {4}, atExit = True\<rparr>
               (MxArray 0 0 # MxArray 0 0 # []) = Inr (s', Some 9)
           \<and> heap s' = insert 9 (heap \<lparr>collector = [4], heap = {4}, atExit = True\<rparr>)
           \<and> set (collector s') = insert 9 (set (collector \<lparr>collector = [4], heap = {4}, atExit = True\<rparr>)))"
proof -
  have h1: "mxGetData (MxArray 0 0) = 0" by simp
  have h2: "unwrap_int (MxArray 0 0) = 0" by simp
  from construct_registers_new_instance [OF h1 h2, of 9 "\<lparr>collector = [4], heap = {4}, atExit = True\<rparr>" "[]"] h1 h2
  show ?thesis by (intro conjI)
qed

section \<open>Persistent registration\<close>

text \<open>
  Claim C6. A call with a non-null pointer \<open>h\<close> in the first input and at least one more
  input returns normally without writing an output; the registry gains \<open>h\<close> and the heap
  is untouched: nothing is allocated and nothing is freed.
\<close>

theorem persistent_registration_only_inserts:
  assumes "mxGetData in0 \<noteq> 0"
  shows "\<exists>s'. mexFunction a s (in0 # in1 # rest) = Inr (s', None)
           \<and> set (collector s') = insert (mxGetData in0) (set (collector s))
           \<and> heap s' = heap s"
  using assms by (simp add: mexFunction_persist set_set_insert)

theorem persistent_registration_only_inserts_witness:
  "mxGetData (MxArray 6 0) \<noteq> 0
   \<and> (\<exists>s'. mexFunction 9 \<lparr>collector = [4], heap = {4, 6}, atExit = True\<rparr>
               (MxArray 6 0 # MxArray 0 0 # []) = Inr (s', None)
           \<and> set (collector s') = insert (mxGetData (MxArray 6 0)) (set (collector \<lparr>collector = [4], heap = {4, 6}, atExit = True\<rparr>))
           \<and> heap s' = heap \<lparr>collector = [4], heap = {4, 6}, atExit = True\<rparr>)"
proof -
  have h1: "mxGetData (MxArray 6 0) \<noteq> 0" by simp
  from persistent_registration_only_inserts [OF h1, of 9 "\<lparr>collector = [4], heap = {4, 6}, atExit = True\<rparr>" "MxArray 0 0" "[]"] h1
  show ?thesis by (intro conjI)
qed

section \<open>Sequences of invocations\<close>

lemma step_keeps_handle:
  assumes "step s e = Inr s'" and "h \<in> set (collector s)"
    and "e \<noteq> Unload" and "\<not> release_of h e"
  shows "h \<in> set (collector s')"
proof (cases e)
  case Unload
  with assms(3) show ?thesis by simp
next
  case (Call a ins)
  show ?thesis
  proof (cases ins)
    case Nil
    with Call assms(1) show ?thesis by (simp add: mexFunction_no_input)
  next
    case (Cons x rest)
    show ?thesis
    proof (cases rest)
      case Nil
      note one = Call Cons Nil
      show ?thesis
      proof (cases "mxGetData x = 0")
        case True
        with one assms(1) show ?thesis by (simp add: mexFunction_null_alone)
      next
        case False
        with one assms(4) have other: "mxGetData x \<noteq> h" by auto
        from False one assms(1) have "set (collector s') = set (collector s)
            \<or> collector s' = remove1 (mxGetData x) (collector s)"
          by (auto simp: mexFunction_release split: if_splits)
        with other assms(2) show ?thesis by (auto simp: in_set_remove1)
      qed
    next
      case (Cons y rest')
      note many = Call \<open>ins = x # rest\<close> Cons
      from many assms(1) have "\<exists>p. collector s' = set_insert p (collector s)"
        by (cases "mxGetData x = 0")
           (auto simp: mexFunction_persist mexFunction_construct split: if_splits)
      with assms(2) show ?thesis by (auto simp: set_set_insert)
    qed
  qed
qed

text \<open>
  Claim C7. Along any run, a handle that is registered at the start and not registered at
  the end was removed by an unload (the teardown sweep) or by a release request naming
  that very handle: some such event occurs in the run. Construction requests, persistent
  registrations and releases of other handles keep it.
\<close>

theorem removal_needs_release_or_sweep:
  assumes "run s evs = Inr s'" and "h \<in> set (collector s)" and "h \<notin> set (collector s')"
  shows "\<exists>e \<in> set evs. e = Unload \<or> release_of h e"
  using assms
proof (induction evs arbitrary: s)
  case Nil
  then show ?case by simp
next
  case (Cons e evs)
  from Cons.prems(1) obtain s1 where st: "step s e = Inr s1" and rn: "run s1 evs = Inr s'"
    by (auto split: sum.splits)
  show ?case
  proof (cases "e = Unload \<or> release_of h e")
    case True
    then show ?thesis by auto
  next
    case False
    with st Cons.prems(2) have "h \<in> set (collector s1)"
      by (auto intro: step_keeps_handle)
    with Cons.IH [OF rn] Cons.prems(3) show ?thesis by auto
  qed
qed

theorem removal_needs_release_or_sweep_witness:
  "run init_state [Call 4 [MxArray 0 0, MxArray 0 0], Call 5 [MxArray 0 0, MxArray 0 0]]
     = Inr \<lparr>collector = [4, 5], heap = {4, 5}, atExit = True\<rparr>
   \<and> run \<lparr>collector = [4, 5], heap = {4, 5}, atExit = True\<rparr>
        [Call 6 [MxArray 5 0, MxArray 0 0], Call 6 [MxArray 4 0]]
     = Inr \<lparr>collector = [5], heap = {5}, atExit = True\<rparr>
   \<and> 4 \<in> set (collector \<lparr>collector = [4, 5], heap = {4, 5}, atExit = True\<rparr>)
   \<and> 4 \<notin> set (collector \<lparr>collector = [5], heap = {5}, atExit = True\<rparr>)
   \<and> (\<exists>e \<in> set [Call 6 [MxArray 5 0, MxArray 0 0], Call 6 [MxArray 4 0]].
          e = Unload \<or> release_of 4 e)"
proof -
  let ?s = "\<lparr>collector = [4, 5], heap = {4, 5}, atExit = True\<rparr>"
  let ?s' = "\<lparr>collector = [5], heap = {5}, atExit = True\<rparr>"
  let ?evs = "[Call 6 [MxArray 5 0, MxArray 0 0], Call 6 [MxArray 4 0]]"
  have h0: "run init_state [Call 4 [MxArray 0 0, MxArray 0 0], Call 5 [MxArray 0 0, MxArray 0 0]] = Inr ?s"
    by (simp add: init_state_def mexFunction_construct set_insert_def insert_commute)
  have h1: "run ?s ?evs = Inr ?s'"
    by (simp add: mexFunction_persist mexFunction_release set_insert_def)
  have h2: "4 \<in> set (collector ?s)" by simp
  have h3: "4 \<notin> set (collector ?s')" by simp
  from removal_needs_release_or_sweep [OF h1 h2 h3] h0 h1 h2 h3
  show ?thesis by (intro conjI)
qed

section \<open>Set semantics of the registry\<close>

lemma step_wf:
  assumes "step s e = Inr s'" and "wf_set (collector s)"
  shows "wf_set (collector s')"
proof (cases e)
  case Unload
  with assms show ?thesis
    by (auto simp: unload_def split: if_splits sum.splits dest: cleanup_returns)
next
  case (Call a ins)
  show ?thesis
  proof (cases ins)
    case Nil
    with Call assms(1) show ?thesis by (simp add: mexFunction_no_input)
  next
    case (Cons x rest)
    show ?thesis
    proof (cases rest)
      case Nil
      note one = Call Cons Nil
      show ?thesis
      proof (cases "mxGetData x = 0")
        case True
        with one assms(1) show ?thesis by (simp add: mexFunction_null_alone)
      next
        case False
        from False one assms(1) have "collector s' = collector s
            \<or> collector s' = remove1 (mxGetData x) (collector s)"
          by (auto simp: mexFunction_release split: if_splits)
        with assms(2) show ?thesis by (auto simp: wf_set_def sorted_remove1)
      qed
    next
      case (Cons y rest')
      note many = Call \<open>ins = x # rest\<close> Cons
      from many assms(1) have "\<exists>p. collector s' = set_insert p (collector s)"
        by (cases "mxGetData x = 0")
           (auto simp: mexFunction_persist mexFunction_construct split: if_splits)
      with assms(2) show ?thesis by (auto simp: wf_set_insert)
    qed
  qed
qed

lemma run_wf: "run s evs = Inr s' \<Longrightarrow> wf_set (collector s) \<Longrightarrow> wf_set (collector s')"
proof (induction evs arbitrary: s)
  case Nil
  then show ?case by simp
next
  case (Cons e evs)
  from Cons.prems(1) obtain s1 where st: "step s e = Inr s1" and rn: "run s1 evs = Inr s'"
    by (auto split: sum.splits)
  from step_wf [OF st Cons.prems(2)] Cons.IH [OF rn] show ?case by blast
qed

text \<open>
  Claim C9. In every state reachable from the initial one the registry holds no handle
  twice; inserting a handle that is registered returns the registry as it is; and a
  persistent-registration request for a registered handle leaves the registry unchanged.
\<close>

theorem registry_is_a_set:
  assumes "run init_state evs = Inr s"
  shows "distinct (collector s)
       \<and> (p \<in> set (collector s) \<longrightarrow> set_insert p (collector s) = collector s)
       \<and> (mxGetData in0 \<noteq> 0 \<and> mxGetData in0 \<in> set (collector s) \<longrightarrow>
            (\<exists>s'. mexFunction a s (in0 # in1 # rest) = Inr (s', None)
                   \<and> collector s' = collector s))"
proof -
  have "wf_set (collector init_state)" by (simp add: init_state_def wf_set_def)
  with assms have "wf_set (collector s)" by (rule run_wf)
  then have "distinct (collector s)" by (simp add: wf_set_def)
  moreover have "p \<in> set (collector s) \<longrightarrow> set_insert p (collector s) = collector s"
    by (simp add: set_insert_def)
  moreover have "mxGetData in0 \<noteq> 0 \<and> mxGetData in0 \<in> set (collector s) \<longrightarrow>
            (\<exists>s'. mexFunction a s (in0 # in1 # rest) = Inr (s', None)
                   \<and> collector s' = collector s)"
    by (simp add: mexFunction_persist set_insert_def)
  ultimately show ?thesis by blast
qed

theorem registry_is_a_set_witness:
  "run init_state [Call 4 [MxArray 0 0, MxArray 0 0], Call 5 [MxArray 4 0, MxArray 0 0]]
     = Inr \<lparr>collector = [4], heap = {4}, atExit = True\<rparr>
   \<and> distinct (collector \<lparr>collector = [4], heap = {4}, atExit = True\<rparr>)
   \<and> set_insert 4 (collector \<lparr>collector = [4], heap = {4}, atExit = True\<rparr>) = [4]
   \<and> (\<exists>s'. mexFunction 5 \<lparr>collector = [4], heap = {4}, atExit = True\<rparr>
               (MxArray 4 0 # MxArray 0 0 # []) = Inr (s', None) \<and> collector s' = [4])"
proof -
  let ?s = "\<lparr>collector = [4], heap = {4}, atExit = True\<rparr>"
  have h: "run init_state [Call 4 [MxArray 0 0, MxArray 0 0], Call 5 [MxArray 4 0, MxArray 0 0]] = Inr ?s"
    by (simp add: init_state_def mexFunction_construct mexFunction_persist set_insert_def)
  from registry_is_a_set [OF h, of 4 "MxArray 4 0" 5 "MxArray 0 0" "[]"] h
  show ?thesis by simp
qed

section \<open>Method names in \<^verbatim>\<open>gtsam.h\<close>\<close>

text \<open>
  Claim C8. The interface file is claimed to declare no two methods of one name in any
  class. \<^verbatim>\<open>Rot3\<close> is the one class that does: \<^verbatim>\<open>RzRyRx\<close> is declared twice, and \<^verbatim>\<open>ypr\<close>,
  \<^verbatim>\<open>yaw\<close>, \<^verbatim>\<open>pitch\<close> and \<^verbatim>\<open>roll\<close> are each declared both as a static and as a member
  method; validating the file stops at \<^verbatim>\<open>Rot3\<close> with \<open>DuplicateMethod\<close>.
\<close>

theorem Rot3_repeats_method_names:
  "map class_name (filter (\<lambda>c. \<not> distinct (map method_name (methods c))) gtsam_h) = [''Rot3'']
   \<and> validate gtsam_h = Inl (DuplicateMethod ''Rot3'' ''ypr'')"
  by code_simp

section \<open>\<^verbatim>\<open>DerivedValue\<close> forwards to the derived class\<close>

text \<open>
  Claim C10. When the argument's dynamic type is \<^verbatim>\<open>DERIVED\<close>, \<^verbatim>\<open>equals_\<close> returns what
  \<^verbatim>\<open>DERIVED::equals\<close> returns on the two objects and the tolerance, and
  \<^verbatim>\<open>localCoordinates_\<close> returns what \<^verbatim>\<open>DERIVED::localCoordinates\<close> returns; and when the
  pool hands out a place, \<^verbatim>\<open>retract_\<close> returns that place, which then holds a copy of
  what \<^verbatim>\<open>DERIVED::retract\<close> returns.
\<close>

theorem DerivedValue_forwards:
  "equals_Value D v (Derived w) tol = Inr (equals D v w tol)
   \<and> localCoordinates_Value D v (Derived w') = Inr (localCoordinates D v w')
   \<and> (place \<noteq> 0 \<longrightarrow>
        (\<exists>pool'. retract_Value D place pool v delta = Inr (place, pool')
                 \<and> pool' place = Some (copy D (retract D v delta))))"
  by (simp add: equals_Value_def localCoordinates_Value_def retract_Value_def dynamic_cast_def)

theorem DerivedValue_forwards_witness:
  "(2::nat) \<noteq> 0
   \<and> equals_Value \<lparr>equals = (\<lambda>a b t. \<bar>a - b\<bar> \<le> t), retract = (\<lambda>a d. a + d),
          localCoordinates = (\<lambda>a b. b - a), copy = (\<lambda>a. a)\<rparr>
        (1::int) (Derived 3 :: (int, unit) Value) (5::int) = Inr True
   \<and> localCoordinates_Value \<lparr>equals = (\<lambda>a b (t::int). \<bar>a - b\<bar> \<le> t), retract = (\<lambda>a d. a + d),
          localCoordinates = (\<lambda>a b. b - a), copy = (\<lambda>a. a)\<rparr>
        (1::int) (Derived 3 :: (int, unit) Value) = Inr (2::int)
   \<and> (\<exists>pool'. retract_Value \<lparr>equals = (\<lambda>a b (t::int). \<bar>a - b\<bar> \<le> t), retract = (\<lambda>a d. a + d),
          localCoordinates = (\<lambda>a b. b - a), copy = (\<lambda>a. a)\<rparr>
        2 Map.empty (1::int) (4::int) = Inr (2, pool') \<and> pool' 2 = Some 5)"
proof -
  let ?D = "\<lparr>equals = (\<lambda>a b (t::int). \<bar>a - b\<bar> \<le> t), retract = (\<lambda>(a::int) (d::int). a + d),
          localCoordinates = (\<lambda>a b. b - a), copy = (\<lambda>a. a)\<rparr>"
  have h: "(2::nat) \<noteq> 0" by simp
  from DerivedValue_forwards [of ?D 1 3 5 3 2 Map.empty 4] h
  show ?thesis by simp
qed

end
